theory Spec2Isabelle
  imports Main "HOL-Library.Word" "HOL-Library.AList" "HOL-Library.Multiset"
begin

unbundle bit_operations_syntax

section \<open>Go string and path primitives used by ghq\<close>

text \<open>
  The two source files call a handful of functions of Go's \<open>strings\<close> and
  \<open>path/filepath\<close> packages. They are pure functions on byte strings; they are
  written out here for a Unix platform (separator \<open>/\<close>, list separator \<open>:\<close>, no volume
  names), which is where \<open>filepath.ToSlash\<close> is the identity.
\<close>

definition strings_HasPrefix :: "string \<Rightarrow> string \<Rightarrow> bool" where
  "strings_HasPrefix s pre = (length pre \<le> length s \<and> take (length pre) s = pre)"

definition strings_HasSuffix :: "string \<Rightarrow> string \<Rightarrow> bool" where
  "strings_HasSuffix s suf =
     (length suf \<le> length s \<and> drop (length s - length suf) s = suf)"

definition strings_TrimSuffix :: "string \<Rightarrow> string \<Rightarrow> string" where
  "strings_TrimSuffix s suf =
     (if strings_HasSuffix s suf then take (length s - length suf) s else s)"

text \<open>\<open>strings.Split(s, sep)\<close> for a one-byte separator: \<open>Split("", "/")\<close> is \<open>[""]\<close>.\<close>

fun strings_Split :: "string \<Rightarrow> char \<Rightarrow> string list" where
  "strings_Split [] c = [[]]"
| "strings_Split (x # xs) c =
     (if x = c then [] # strings_Split xs c
      else (case strings_Split xs c of
              [] \<Rightarrow> [[x]]
            | w # ws \<Rightarrow> (x # w) # ws))"

fun strings_Join :: "string list \<Rightarrow> string \<Rightarrow> string" where
  "strings_Join [] sep = []"
| "strings_Join [x] sep = x"
| "strings_Join (x # y # ys) sep = x @ sep @ strings_Join (y # ys) sep"

text \<open>
  \<open>filepath.Clean\<close>, element by element. \<open>acc\<close> is the output so far, last element
  first. An empty element and \<open>.\<close> are dropped; \<open>..\<close> removes the last real element
  when there is one, is kept when the path is not rooted, and is dropped at the root.
\<close>

fun cleanElems :: "bool \<Rightarrow> string list \<Rightarrow> string list \<Rightarrow> string list" where
  "cleanElems rooted acc [] = rev acc"
| "cleanElems rooted acc (e # es) =
     (if e = [] \<or> e = ''.'' then cleanElems rooted acc es
      else if e = ''..'' then
        (if acc \<noteq> [] \<and> hd acc \<noteq> ''..'' then cleanElems rooted (tl acc) es
         else if \<not> rooted then cleanElems rooted (e # acc) es
         else cleanElems rooted acc es)
      else cleanElems rooted (e # acc) es)"

definition isRooted :: "string \<Rightarrow> bool" where
  "isRooted p = (p \<noteq> [] \<and> hd p = CHR ''/'')"

definition cleanParts :: "string \<Rightarrow> string list" where
  "cleanParts p = cleanElems (isRooted p) [] (strings_Split p (CHR ''/''))"

definition filepath_Clean :: "string \<Rightarrow> string" where
  "filepath_Clean p =
     (if p = [] then ''.''
      else if isRooted p then CHR ''/'' # strings_Join (cleanParts p) ''/''
      else if cleanParts p = [] then ''.''
      else strings_Join (cleanParts p) ''/'')"

text \<open>
  \<open>filepath.Join\<close>: the elements from the first non-empty one on are joined with the
  separator and cleaned; with no non-empty element the result is the empty string.
\<close>

definition filepath_Join :: "string list \<Rightarrow> string" where
  "filepath_Join elem =
     (case dropWhile (\<lambda>e. e = []) elem of
        [] \<Rightarrow> []
      | e # es \<Rightarrow> filepath_Clean (strings_Join (e # es) ''/''))"

text \<open>\<open>filepath.Split\<close>: the directory, with its final separator, and the file name.\<close>

definition filepath_Split :: "string \<Rightarrow> string \<times> string" where
  "filepath_Split p =
     (let file = rev (takeWhile (\<lambda>c. c \<noteq> CHR ''/'') (rev p))
      in (take (length p - length file) p, file))"

definition filepath_IsAbs :: "string \<Rightarrow> bool" where
  "filepath_IsAbs p = strings_HasPrefix p ''/''"

definition filepath_SplitList :: "string \<Rightarrow> string list" where
  "filepath_SplitList p = (if p = [] then [] else strings_Split p (CHR '':''))"

definition filepath_ToSlash :: "string \<Rightarrow> string" where
  "filepath_ToSlash p = p"

section \<open>Errors\<close>

text \<open>
  Go errors as values. \<open>SkipDir\<close> is \<open>filepath.SkipDir\<close>. \<open>ErrorString\<close> is what \<open>errors.New\<close> and \<open>fmt.Errorf\<close> build;
  \<open>PathError\<close> is \<open>*os.PathError\<close>, the wrapper the operating-system layer puts around
  the error of a file operation; \<open>ErrConfigNotFound\<close> is the error that
  \<open>gitconfig.IsNotFound\<close> recognises.
\<close>

datatype error =
    ErrPermission
  | ErrNotExist
  | ErrIO
  | ErrConfigNotFound
  | SkipDir
  | ErrorString string
  | PathError string string error

text \<open>\<open>xerrors.Unwrap\<close>: the wrapped error, or nil when the error wraps nothing.\<close>

fun xerrors_Unwrap :: "error \<Rightarrow> error option" where
  "xerrors_Unwrap (PathError opn p e) = Some e"
| "xerrors_Unwrap e = None"

text \<open>
  \<open>os.IsPermission\<close> and \<open>os.IsNotExist\<close> look through one \<open>PathError\<close> and are false
  on nil.
\<close>

fun underlyingError :: "error \<Rightarrow> error" where
  "underlyingError (PathError opn p e) = e"
| "underlyingError e = e"

definition os_IsPermission :: "error option \<Rightarrow> bool" where
  "os_IsPermission err =
     (case err of None \<Rightarrow> False | Some e \<Rightarrow> underlyingError e = ErrPermission)"

definition os_IsNotExist :: "error option \<Rightarrow> bool" where
  "os_IsNotExist err =
     (case err of None \<Rightarrow> False | Some e \<Rightarrow> underlyingError e = ErrNotExist)"

definition gitconfig_IsNotFound :: "error option \<Rightarrow> bool" where
  "gitconfig_IsNotFound err = (err = Some ErrConfigNotFound)"

section \<open>vcs.go: the backends\<close>

text \<open>
  A backend acts on the world only through \<open>os.MkdirAll\<close> and the command runners of
  \<open>cmdutil\<close>. Each such call is an \<open>action\<close>; the world answers an action with nil or an
  error (\<open>exec\<close>). A backend operation returns the actions it performed, in order, and
  the error it returns. The flag of \<open>Run\<close> and \<open>RunInDir\<close> is \<open>silent\<close>: \<open>run(silent)\<close>
  selects \<open>cmdutil.RunSilently\<close> or \<open>cmdutil.Run\<close>.
\<close>

datatype action =
    MkdirAll string nat
  | Run bool string "string list"
  | RunInDir bool string string "string list"

type_synonym world = "action \<Rightarrow> error option"

record URL =
  url_Hostname :: string
  url_Path :: string
  url_String :: string

datatype VCSBackend =
    GitBackend
  | SubversionBackend
  | GitsvnBackend
  | MercurialBackend
  | DarcsBackend
  | cvsDummyBackend
  | FossilBackend
  | BazaarBackend

text \<open>The permission bits \<open>0755\<close> (octal) passed to \<open>os.MkdirAll\<close>.\<close>

definition perm0755 :: nat where
  "perm0755 = 7 * 64 + 5 * 8 + 5"

definition fossilRepoName :: string where
  "fossilRepoName = ''.fossil''"

text \<open>The shape shared by all clones but Fossil's and CVS's: make the parent directory, run one command.\<close>

definition mkdirThenRun :: "world \<Rightarrow> string \<Rightarrow> bool \<Rightarrow> string \<Rightarrow> string list \<Rightarrow> action list \<times> error option" where
  "mkdirThenRun exec local silent command args =
     (let dir = fst (filepath_Split local);
          mk = MkdirAll dir perm0755
      in case exec mk of
           Some err \<Rightarrow> ([mk], Some err)
         | None \<Rightarrow> ([mk, Run silent command args], exec (Run silent command args)))"

fun Clone :: "VCSBackend \<Rightarrow> world \<Rightarrow> URL \<Rightarrow> string \<Rightarrow> bool \<Rightarrow> bool \<Rightarrow> action list \<times> error option" where
  "Clone GitBackend exec remote local shallow silent =
     mkdirThenRun exec local silent ''git''
       ([''clone''] @ (if shallow then [''--depth'', ''1''] else []) @ [url_String remote, local])"
| "Clone SubversionBackend exec remote local shallow silent =
     mkdirThenRun exec local silent ''svn''
       ([''checkout''] @ (if shallow then [''--depth'', ''1''] else []) @ [url_String remote, local])"
| "Clone GitsvnBackend exec remote local ignoredShallow silent =
     mkdirThenRun exec local silent ''git'' [''svn'', ''clone'', url_String remote, local]"
| "Clone MercurialBackend exec remote local ignoredShallow silent =
     mkdirThenRun exec local silent ''hg'' [''clone'', url_String remote, local]"
| "Clone DarcsBackend exec remote local shallow silent =
     mkdirThenRun exec local silent ''darcs''
       ([''get''] @ (if shallow then [''--lazy''] else []) @ [url_String remote, local])"
| "Clone cvsDummyBackend exec remote local ignoredShallow silent =
     ([], Some (ErrorString ''CVS clone is not supported''))"
| "Clone FossilBackend exec remote local shallow silent =
     (let mk = MkdirAll local perm0755;
          cl = Run silent ''fossil''
                 [''clone'', url_String remote, filepath_Join [local, fossilRepoName]];
          opn = RunInDir silent local ''fossil'' [''open'', fossilRepoName]
      in case exec mk of
           Some err \<Rightarrow> ([mk], Some err)
         | None \<Rightarrow>
             (case exec cl of
                Some err \<Rightarrow> ([mk, cl], Some err)
              | None \<Rightarrow> ([mk, cl, opn], exec opn)))"
| "Clone BazaarBackend exec remote local ignoredShallow silent =
     mkdirThenRun exec local silent ''bzr'' [''branch'', url_String remote, local]"

definition runInDirOnly :: "world \<Rightarrow> bool \<Rightarrow> string \<Rightarrow> string \<Rightarrow> string list \<Rightarrow> action list \<times> error option" where
  "runInDirOnly exec silent dir command args =
     ([RunInDir silent dir command args], exec (RunInDir silent dir command args))"

fun Update :: "VCSBackend \<Rightarrow> world \<Rightarrow> string \<Rightarrow> bool \<Rightarrow> action list \<times> error option" where
  "Update GitBackend exec local silent = runInDirOnly exec silent local ''git'' [''pull'', ''--ff-only'']"
| "Update SubversionBackend exec local silent = runInDirOnly exec silent local ''svn'' [''update'']"
| "Update GitsvnBackend exec local silent = runInDirOnly exec silent local ''git'' [''svn'', ''rebase'']"
| "Update MercurialBackend exec local silent = runInDirOnly exec silent local ''hg'' [''pull'', ''--update'']"
| "Update DarcsBackend exec local silent = runInDirOnly exec silent local ''darcs'' [''pull'']"
| "Update cvsDummyBackend exec local silent = ([], Some (ErrorString ''CVS update is not supported''))"
| "Update FossilBackend exec local silent = runInDirOnly exec silent local ''fossil'' [''update'']"
| "Update BazaarBackend exec local silent = runInDirOnly exec silent local ''bzr'' [''pull'', ''--overwrite'']"

fun Contents :: "VCSBackend \<Rightarrow> string list" where
  "Contents GitBackend = [''.git'']"
| "Contents SubversionBackend = [''.svn'']"
| "Contents GitsvnBackend = [''.git/svn'']"
| "Contents MercurialBackend = [''.hg'']"
| "Contents DarcsBackend = [''_darcs'']"
| "Contents cvsDummyBackend = [''CVS/Repository'']"
| "Contents FossilBackend = [''.fslckout'', ''_FOSSIL_'']"
| "Contents BazaarBackend = [''.bzr'']"

text \<open>\<open>vcsRegistry\<close>, a Go map literal: the keys are distinct, so lookup is all there is to it.\<close>

definition vcsRegistry :: "(string \<times> VCSBackend) list" where
  "vcsRegistry =
     [(''git'', GitBackend),
      (''github'', GitBackend),
      (''svn'', SubversionBackend),
      (''subversion'', SubversionBackend),
      (''git-svn'', GitsvnBackend),
      (''hg'', MercurialBackend),
      (''mercurial'', MercurialBackend),
      (''darcs'', DarcsBackend),
      (''fossil'', FossilBackend),
      (''bzr'', BazaarBackend),
      (''bazaar'', BazaarBackend)]"


section \<open>filepath.Rel\<close>

text \<open>
  \<open>filepath.Rel\<close> cleans both paths and walks them word by word, a word being a run of
  bytes up to the next separator. \<open>relWords\<close> is the sequence of words that walk sees: a
  final separator does not start another word. \<open>stripCommon\<close> is the walk: it stops at
  the first pair of words that differ, or when either path is used up. The error case is
  the one where the walk stopped at a differing word of the base that is \<open>..\<close>.
\<close>

definition relWords :: "string \<Rightarrow> string list" where
  "relWords s =
     (if s = [] then []
      else (let ws = strings_Split s (CHR ''/'')
            in if last ws = [] then butlast ws else ws))"

fun stripCommon :: "string list \<Rightarrow> string list \<Rightarrow> string list \<times> string list" where
  "stripCommon (b # bs) (t # ts) =
     (if b = t then stripCommon bs ts else (b # bs, t # ts))"
| "stripCommon bs ts = (bs, ts)"

definition filepath_Rel :: "string \<Rightarrow> string \<Rightarrow> error + string" where
  "filepath_Rel basepath targpath =
     (let base = filepath_Clean basepath;
          targ = filepath_Clean targpath
      in if targ = base then Inr ''.''
         else
           (let base' = (if base = ''.'' then [] else base);
                cannot = ErrorString (''Rel: can't make '' @ targpath @ '' relative to '' @ basepath)
            in if isRooted base' \<noteq> isRooted targ then Inl cannot
               else
                 (case stripCommon (relWords base') (relWords targ) of
                    (rb, rt) \<Rightarrow>
                      if rb \<noteq> [] \<and> rt \<noteq> [] \<and> hd rb = ''..'' then Inl cannot
                      else if rb \<noteq> [] then
                        Inr (strings_Join (replicate (length rb) ''..'' @ rt) ''/'')
                      else Inr (strings_Join rt ''/''))))"

section \<open>local_repository.go: the environment and the package-level variables\<close>

text \<open>
  \<open>os.FileInfo\<close>, as far as the code reads it: the name and the mode bits (a
  \<open>uint32\<close>). \<open>IsDir\<close> tests the directory bit of the mode.
\<close>

record FileInfo =
  fi_Name :: string
  fi_Mode :: "32 word"

definition os_ModeDir :: "32 word" where
  "os_ModeDir = push_bit 31 1"

definition os_ModeSymlink :: "32 word" where
  "os_ModeSymlink = push_bit 27 1"

definition fi_IsDir :: "FileInfo \<Rightarrow> bool" where
  "fi_IsDir fi = (fi_Mode fi AND os_ModeDir \<noteq> 0)"

text \<open>The permission bits \<open>0444\<close> (octal).\<close>

definition perm0444 :: "32 word" where
  "perm0444 = 4 * 64 + 4 * 8 + 4"

text \<open>
  What \<open>walker.Walk\<close> finds below a path: the \<open>Lstat\<close> information of an entry, the
  error of reading it as a directory (if any), and its entries.
\<close>

datatype fsnode = FsNode FileInfo "error option" "fsnode list"

text \<open>
  Everything the code asks of the process environment, the git configuration and the file
  system. A Go call returning \<open>(value, err)\<close> whose value is not used when \<open>err\<close> is set
  is a sum; \<open>gitconfig.PathAll\<close> and \<open>gitconfig.GetAll\<close> keep both components, since the
  code uses the list when the error is "not found".
\<close>

record env =
  os_Getenv_GHQ_ROOT :: string
  gitconfig_PathAll_ghq_root :: "string list \<times> error option"
  gitconfig_GetAll_ghq_findVcs :: "string list \<times> error option"
  os_UserHomeDir :: "error + string"
  os_Getwd :: "error + string"
  os_Stat :: "string \<Rightarrow> error + FileInfo"
  filepath_EvalSymlinks :: "string \<Rightarrow> error + string"
  walker_tree :: "string \<Rightarrow> error + fsnode"

text \<open>\<open>filepath.Abs\<close> on Unix.\<close>

definition filepath_Abs :: "env \<Rightarrow> string \<Rightarrow> error + string" where
  "filepath_Abs env p =
     (if filepath_IsAbs p then Inr (filepath_Clean p)
      else (case os_Getwd env of
              Inl err \<Rightarrow> Inl err
            | Inr wd \<Rightarrow> Inr (filepath_Join [wd, p])))"

text \<open>
  The package-level variables: \<open>_localRepositoryRoots\<close> (here \<open>localRepositoryRoots_var\<close>),
  \<open>vcsContentsMap\<close> and \<open>vcsContents\<close>. The Go map is an association list with distinct
  keys, read with \<open>map_of\<close> and written with \<open>AList.update\<close>.
\<close>

record globals =
  localRepositoryRoots_var :: "string list"
  vcsContentsMap :: "(string \<times> VCSBackend) list"
  vcsContents :: "string list"

text \<open>A function that can panic returns \<open>Panic\<close> instead of a value.\<close>

datatype 'a go = Panic | Ret 'a

section \<open>init and findVCSBackend\<close>

definition registerContents :: "VCSBackend \<Rightarrow> (string \<times> VCSBackend) list \<Rightarrow> (string \<times> VCSBackend) list" where
  "registerContents vcs m = fold (\<lambda>c. AList.update c vcs) (Contents vcs) m"

text \<open>
  The first half of \<open>init\<close>: the map from marker to backend. Without a \<open>ghq.findVcs\<close>
  setting every backend of the registry is entered, otherwise those the setting names
  that the registry knows. \<open>init_map\<close> is \<open>None\<close> where \<open>init\<close> exits the process.
\<close>

definition init_map :: "env \<Rightarrow> (string \<times> VCSBackend) list option" where
  "init_map env =
     (case gitconfig_GetAll_ghq_findVcs env of
        (vcses, err) \<Rightarrow>
          if err \<noteq> None \<and> \<not> gitconfig_IsNotFound err then None
          else if length vcses = 0 then
            Some (fold (\<lambda>(name, vcs). registerContents vcs) vcsRegistry [])
          else
            Some (fold (\<lambda>v m. case map_of vcsRegistry v of
                                 Some vcs \<Rightarrow> registerContents vcs m
                               | None \<Rightarrow> m) vcses []))"

text \<open>
  The second half of \<open>init\<close> collects the keys of the map, in the unspecified order of a
  Go map iteration, and sorts them with \<open>sort.Slice\<close>, which is not stable, under
  \<open>len(vcsContents[i]) > len(vcsContents[j])\<close>. What is known of the outcome is that it
  holds the same keys and that no element is shorter than a later one.
\<close>

definition init_sorted :: "(string \<times> VCSBackend) list \<Rightarrow> string list \<Rightarrow> bool" where
  "init_sorted m cs =
     (mset cs = mset (map fst m) \<and> sorted_wrt (\<lambda>a b. \<not> length b > length a) cs)"

definition init_ok :: "env \<Rightarrow> globals \<Rightarrow> bool" where
  "init_ok env g =
     (init_map env = Some (vcsContentsMap g) \<and> init_sorted (vcsContentsMap g) (vcsContents g))"

fun findVCSBackend_loop :: "env \<Rightarrow> (string \<times> VCSBackend) list \<Rightarrow> string list \<Rightarrow> string \<Rightarrow> VCSBackend option" where
  "findVCSBackend_loop env m [] fpath = None"
| "findVCSBackend_loop env m (d # ds) fpath =
     (case os_Stat env (filepath_Join [fpath, d]) of
        Inr fi \<Rightarrow> map_of m d
      | Inl err \<Rightarrow> findVCSBackend_loop env m ds fpath)"

definition findVCSBackend :: "env \<Rightarrow> globals \<Rightarrow> string \<Rightarrow> VCSBackend option" where
  "findVCSBackend env g fpath = findVCSBackend_loop env (vcsContentsMap g) (vcsContents g) fpath"


section \<open>localRepositoryRoots\<close>

text \<open>What the last loop of \<open>localRepositoryRoots\<close> does to one entry.\<close>

definition resolveRoot :: "env \<Rightarrow> string \<Rightarrow> error + string" where
  "resolveRoot env v =
     (let path = filepath_Clean v
      in case (case os_Stat env path of
                 Inr fi \<Rightarrow> filepath_EvalSymlinks env path
               | Inl err \<Rightarrow> Inr path) of
           Inl err \<Rightarrow> Inl err
         | Inr path' \<Rightarrow>
             if \<not> filepath_IsAbs path' then filepath_Abs env path' else Inr path')"

text \<open>
  The loop writes each resolved path back into the slice it ranges over. \<open>done\<close> are the
  entries already written; on an error the variable keeps them and the entries not yet
  reached.
\<close>

fun resolveRoots_loop :: "env \<Rightarrow> string list \<Rightarrow> string list \<Rightarrow> error option \<times> string list" where
  "resolveRoots_loop env done [] = (None, done)"
| "resolveRoots_loop env done (v # vs) =
     (case resolveRoot env v of
        Inl err \<Rightarrow> (Some err, done @ v # vs)
      | Inr path \<Rightarrow> resolveRoots_loop env (done @ [path]) vs)"

definition localRepositoryRoots :: "env \<Rightarrow> globals \<Rightarrow> (error + string list) \<times> globals" where
  "localRepositoryRoots env g =
     (if length (localRepositoryRoots_var g) \<noteq> 0 then (Inr (localRepositoryRoots_var g), g)
      else
        (let envRoot = os_Getenv_GHQ_ROOT env;
             (roots, err) = (if envRoot \<noteq> [] then (filepath_SplitList envRoot, None)
                             else gitconfig_PathAll_ghq_root env)
         in if err \<noteq> None \<and> \<not> gitconfig_IsNotFound err
            then (Inl (the err), g\<lparr>localRepositoryRoots_var := roots\<rparr>)
            else
              (case (if length roots = 0
                     then (case os_UserHomeDir env of
                             Inl e \<Rightarrow> Inl e
                           | Inr homeDir \<Rightarrow> Inr [filepath_Join [homeDir, ''.ghq'']])
                     else Inr roots) of
                 Inl e \<Rightarrow> (Inl e, g\<lparr>localRepositoryRoots_var := roots\<rparr>)
               | Inr roots' \<Rightarrow>
                   (case resolveRoots_loop env [] roots' of
                      (Some e, cur) \<Rightarrow> (Inl e, g\<lparr>localRepositoryRoots_var := cur\<rparr>)
                    | (None, cur) \<Rightarrow> (Inr cur, g\<lparr>localRepositoryRoots_var := cur\<rparr>)))))"

definition primaryLocalRepositoryRoot :: "env \<Rightarrow> globals \<Rightarrow> (error + string) go \<times> globals" where
  "primaryLocalRepositoryRoot env g =
     (case localRepositoryRoots env g of
        (Inl err, g') \<Rightarrow> (Ret (Inl err), g')
      | (Inr roots, g') \<Rightarrow>
          (case roots of [] \<Rightarrow> (Panic, g') | r # rs \<Rightarrow> (Ret (Inr r), g')))"

section \<open>LocalRepository\<close>

record LocalRepository =
  FullPath :: string
  RelPath :: string
  RootPath :: string
  PathParts :: "string list"
  repoPath :: string
  vcsBackend :: "VCSBackend option"

definition RepoPath :: "LocalRepository \<Rightarrow> string" where
  "RepoPath repo = (if repoPath repo \<noteq> [] then repoPath repo else FullPath repo)"

text \<open>
  The loop of \<open>LocalRepositoryFromFullPath\<close>. It assigns the loop variable \<open>root\<close>,
  declared outside the loop, at every iteration, and \<open>relPath\<close> at every call of
  \<open>filepath.Rel\<close> (the empty string when \<open>Rel\<close> fails).
\<close>

fun fromFullPath_loop :: "string \<Rightarrow> string list \<Rightarrow> string \<times> string \<Rightarrow> string \<times> string" where
  "fromFullPath_loop fullPath [] (root, relPath) = (root, relPath)"
| "fromFullPath_loop fullPath (r # rs) (root, relPath) =
     (if \<not> strings_HasPrefix fullPath r then fromFullPath_loop fullPath rs (r, relPath)
      else (case filepath_Rel r fullPath of
              Inr p \<Rightarrow> (r, p)
            | Inl err \<Rightarrow> fromFullPath_loop fullPath rs (r, [])))"

definition noLocalRepositoryFound :: "string \<Rightarrow> error" where
  "noLocalRepositoryFound fullPath = ErrorString (''no local repository found for: '' @ fullPath)"

definition LocalRepositoryFromFullPath ::
  "env \<Rightarrow> globals \<Rightarrow> string \<Rightarrow> VCSBackend option \<Rightarrow> (error + LocalRepository) \<times> globals" where
  "LocalRepositoryFromFullPath env g fullPath backend =
     (case localRepositoryRoots env g of
        (Inl err, g') \<Rightarrow> (Inl err, g')
      | (Inr roots, g') \<Rightarrow>
          (case fromFullPath_loop fullPath roots ([], []) of
             (root, relPath) \<Rightarrow>
               if relPath = [] then (Inl (noLocalRepositoryFound fullPath), g')
               else
                 (Inr \<lparr>FullPath = fullPath,
                       RelPath = filepath_ToSlash relPath,
                       RootPath = root,
                       PathParts = strings_Split relPath (CHR ''/''),
                       repoPath = [],
                       vcsBackend = backend\<rparr>, g')))"

text \<open>
  \<open>repoRootCandidates\<close>: \<open>PathParts[0]\<close> panics on an empty slice; the loop fills
  \<open>candidates[i]\<close> for \<open>i\<close> from 0 up to the number of non-host parts.
\<close>

definition repoRootCandidates :: "LocalRepository \<Rightarrow> string list go" where
  "repoRootCandidates repo =
     (case PathParts repo of
        [] \<Rightarrow> Panic
      | host # nonHostParts \<Rightarrow>
          (let hostRoot = filepath_Join [RootPath repo, host]
           in Ret (map (\<lambda>i. filepath_Join (hostRoot # take (length nonHostParts - i) nonHostParts))
                       [0 ..< length nonHostParts])))"

text \<open>The loop of \<open>VCS\<close>: the first candidate at which a backend is found is stored.\<close>

fun VCS_loop :: "env \<Rightarrow> globals \<Rightarrow> string list \<Rightarrow> LocalRepository \<Rightarrow> LocalRepository" where
  "VCS_loop env g [] repo = repo"
| "VCS_loop env g (dir # dirs) repo =
     (case findVCSBackend env g dir of
        Some backend \<Rightarrow> repo\<lparr>vcsBackend := Some backend, repoPath := dir\<rparr>
      | None \<Rightarrow> VCS_loop env g dirs repo)"

text \<open>\<open>VCS\<close> returns the backend and the path, and the repository with its cache fields.\<close>

definition VCS :: "env \<Rightarrow> globals \<Rightarrow> LocalRepository \<Rightarrow> (VCSBackend option \<times> string \<times> LocalRepository) go" where
  "VCS env g repo =
     (if vcsBackend repo = None then
        (case repoRootCandidates repo of
           Panic \<Rightarrow> Panic
         | Ret candidates \<Rightarrow>
             (let repo' = VCS_loop env g candidates repo
              in Ret (vcsBackend repo', RepoPath repo', repo')))
      else Ret (vcsBackend repo, RepoPath repo, repo))"

section \<open>walkLocalRepositories\<close>

text \<open>
  The caller's callback acts on caller state of some type \<open>'c\<close>. \<open>walkFn\<close> is the
  closure of \<open>walkLocalRepositories\<close>; it returns nil or \<open>filepath.SkipDir\<close>.
\<close>

definition walkFn ::
  "env \<Rightarrow> (LocalRepository \<Rightarrow> 'c \<Rightarrow> 'c) \<Rightarrow> string \<Rightarrow> FileInfo \<Rightarrow> globals \<times> 'c \<Rightarrow> error option \<times> (globals \<times> 'c)" where
  "walkFn env callback fpath fi0 s =
     (let isSymlink = (fi_Mode fi0 AND os_ModeSymlink = os_ModeSymlink)
      in case (if isSymlink
               then (case filepath_EvalSymlinks env fpath of
                       Inl err \<Rightarrow> None
                     | Inr realpath \<Rightarrow>
                         (case os_Stat env realpath of
                            Inl err \<Rightarrow> None
                          | Inr fi \<Rightarrow> Some fi))
               else Some fi0) of
           None \<Rightarrow> (None, s)
         | Some fi \<Rightarrow>
             if \<not> fi_IsDir fi then (None, s)
             else
               (case findVCSBackend env (fst s) fpath of
                  None \<Rightarrow> (None, s)
                | Some backend \<Rightarrow>
                    (case LocalRepositoryFromFullPath env (fst s) fpath (Some backend) of
                       (Inl err, g') \<Rightarrow> (None, (g', snd s))
                     | (Inr repo, g') \<Rightarrow>
                         (if isSymlink then None else Some SkipDir,
                          (g', callback repo (snd s))))))"

definition errCb :: "string \<Rightarrow> error \<Rightarrow> error option" where
  "errCb pathname err = (if os_IsPermission (xerrors_Unwrap err) then None else Some err)"

text \<open>
  \<open>walker.Walk\<close> belongs to the library \<open>github.com/saracen/walker\<close>. Its contract, one
  entry after the other: the function is called on the entry; \<open>SkipDir\<close> ends the visit
  of the entry without error, any other error ends the walk; a symbolic link and a
  non-directory are not entered; a directory is read, an error of reading it goes, wrapped
  in a \<open>PathError\<close>, to the error callback, which decides whether the walk goes on without
  the directory's entries (nil) or ends; the entries are then visited under the path
  \<open>dirname/name\<close>. The library visits subtrees in parallel; the order here is one of
  the orders it can take.
\<close>

fun walk_entry ::
    "(string \<Rightarrow> FileInfo \<Rightarrow> 's \<Rightarrow> error option \<times> 's) \<Rightarrow> (string \<Rightarrow> error \<Rightarrow> error option) \<Rightarrow>
     string \<Rightarrow> fsnode \<Rightarrow> 's \<Rightarrow> error option \<times> 's"
  and walk_entries ::
    "(string \<Rightarrow> FileInfo \<Rightarrow> 's \<Rightarrow> error option \<times> 's) \<Rightarrow> (string \<Rightarrow> error \<Rightarrow> error option) \<Rightarrow>
     string \<Rightarrow> fsnode list \<Rightarrow> 's \<Rightarrow> error option \<times> 's" where
  "walk_entry fn cb pathname (FsNode fi rderr entries) s =
     (case fn pathname fi s of
        (Some err, s') \<Rightarrow> if err = SkipDir then (None, s') else (Some err, s')
      | (None, s') \<Rightarrow>
          if fi_Mode fi AND os_ModeSymlink \<noteq> 0 then (None, s')
          else if \<not> fi_IsDir fi then (None, s')
          else (case rderr of
                  Some err \<Rightarrow> (cb pathname (PathError ''open'' pathname err), s')
                | None \<Rightarrow> walk_entries fn cb pathname entries s'))"
| "walk_entries fn cb dirname [] s = (None, s)"
| "walk_entries fn cb dirname (FsNode fi rderr entries # rest) s =
     (case walk_entry fn cb (dirname @ ''/'' @ fi_Name fi) (FsNode fi rderr entries) s of
        (Some err, s') \<Rightarrow> (Some err, s')
      | (None, s') \<Rightarrow> walk_entries fn cb dirname rest s')"

definition walker_Walk ::
  "env \<Rightarrow> string \<Rightarrow> (string \<Rightarrow> FileInfo \<Rightarrow> 's \<Rightarrow> error option \<times> 's) \<Rightarrow> (string \<Rightarrow> error \<Rightarrow> error option) \<Rightarrow>
   's \<Rightarrow> error option \<times> 's" where
  "walker_Walk env root fn cb s =
     (case walker_tree env root of
        Inl err \<Rightarrow> (Some err, s)
      | Inr node \<Rightarrow> walk_entry fn cb root node s)"

text \<open>
  The loop over the roots. \<open>os.Stat\<close> returns a nil \<open>FileInfo\<close> with an error; when the
  error is not "does not exist" the code goes on to \<open>fi.Mode()\<close>, which panics.
\<close>

fun walkRoots ::
  "env \<Rightarrow> (LocalRepository \<Rightarrow> 'c \<Rightarrow> 'c) \<Rightarrow> string list \<Rightarrow> globals \<times> 'c \<Rightarrow> (error option \<times> (globals \<times> 'c)) go" where
  "walkRoots env callback [] s = Ret (None, s)"
| "walkRoots env callback (root # roots) s =
     (case os_Stat env root of
        Inl err \<Rightarrow>
          if os_IsNotExist (Some err) then walkRoots env callback roots s else Panic
      | Inr fi \<Rightarrow>
          if fi_Mode fi AND perm0444 = 0 then Ret (Some ErrPermission, s)
          else (case walker_Walk env root (walkFn env callback) errCb s of
                  (Some err, s') \<Rightarrow> Ret (Some err, s')
                | (None, s') \<Rightarrow> walkRoots env callback roots s'))"

definition walkLocalRepositories ::
  "env \<Rightarrow> (LocalRepository \<Rightarrow> 'c \<Rightarrow> 'c) \<Rightarrow> globals \<times> 'c \<Rightarrow> (error option \<times> (globals \<times> 'c)) go" where
  "walkLocalRepositories env callback s =
     (case localRepositoryRoots env (fst s) of
        (Inl err, g') \<Rightarrow> Ret (Some err, (g', snd s))
      | (Inr roots, g') \<Rightarrow> walkRoots env callback roots (g', snd s))"

section \<open>LocalRepositoryFromURL\<close>

text \<open>The relative path and the path parts computed from the URL, before any file access.\<close>

definition urlPathParts :: "URL \<Rightarrow> string list" where
  "urlPathParts remoteURL = url_Hostname remoteURL # strings_Split (url_Path remoteURL) (CHR ''/'')"

definition urlRelPath :: "URL \<Rightarrow> string" where
  "urlRelPath remoteURL = strings_TrimSuffix (filepath_Join (urlPathParts remoteURL)) ''.git''"

definition urlTrimmedParts :: "URL \<Rightarrow> string list" where
  "urlTrimmedParts remoteURL =
     (let pathParts = urlPathParts remoteURL
      in pathParts[length pathParts - 1 := strings_TrimSuffix (pathParts ! (length pathParts - 1)) ''.git''])"

definition LocalRepositoryFromURL :: "env \<Rightarrow> globals \<Rightarrow> URL \<Rightarrow> ((error + LocalRepository) \<times> globals) go" where
  "LocalRepositoryFromURL env g remoteURL =
     (let relPath = urlRelPath remoteURL;
          pathParts = urlTrimmedParts remoteURL
      in case walkLocalRepositories env
                (\<lambda>repo localRepository. if RelPath repo = relPath then Some repo else localRepository)
                (g, None) of
           Panic \<Rightarrow> Panic
         | Ret (Some err, (g', found)) \<Rightarrow> Ret (Inl err, g')
         | Ret (None, (g', Some repo)) \<Rightarrow> Ret (Inr repo, g')
         | Ret (None, (g', None)) \<Rightarrow>
             (case primaryLocalRepositoryRoot env g' of
                (Panic, g'') \<Rightarrow> Panic
              | (Ret (Inl err), g'') \<Rightarrow> Ret (Inl err, g'')
              | (Ret (Inr prim), g'') \<Rightarrow>
                  Ret (Inr \<lparr>FullPath = filepath_Join [prim, relPath],
                            RelPath = relPath,
                            RootPath = prim,
                            PathParts = pathParts,
                            repoPath = [],
                            vcsBackend = None\<rparr>, g'')))"


section \<open>Predicates used in the statements, and example inputs\<close>

text \<open>A marker exists under a directory when \<open>os.Stat\<close> of the joined path succeeds.\<close>

definition markerExists :: "env \<Rightarrow> string \<Rightarrow> string \<Rightarrow> bool" where
  "markerExists env fpath d = (case os_Stat env (filepath_Join [fpath, d]) of Inr fi \<Rightarrow> True | Inl err \<Rightarrow> False)"

text \<open>
  What \<open>init\<close> can put into the map: a marker is entered for the backend whose
  \<open>Contents\<close> lists it, and only backends of the registry are entered.
\<close>

definition registered :: "(string \<times> VCSBackend) list \<Rightarrow> bool" where
  "registered m = (\<forall>c b. map_of m c = Some b \<longrightarrow> c \<in> set (Contents b) \<and> b \<noteq> cvsDummyBackend)"

text \<open>
  An environment without \<open>GHQ_ROOT\<close> and without git configuration, in which exactly the
  listed paths exist (as directories of mode \<open>0755\<close>), and the variables \<open>init\<close> leaves
  for it, with one of the orders the sort can produce.
\<close>

definition exampleEnv :: "string list \<Rightarrow> env" where
  "exampleEnv paths =
     \<lparr>os_Getenv_GHQ_ROOT = [],
      gitconfig_PathAll_ghq_root = ([], Some ErrConfigNotFound),
      gitconfig_GetAll_ghq_findVcs = ([], Some ErrConfigNotFound),
      os_UserHomeDir = Inr ''/home/u'',
      os_Getwd = Inr ''/home/u'',
      os_Stat = (\<lambda>p. if p \<in> set paths
                     then Inr \<lparr>fi_Name = snd (filepath_Split p), fi_Mode = os_ModeDir OR 493\<rparr>
                     else Inl (PathError ''stat'' p ErrNotExist)),
      filepath_EvalSymlinks = Inr,
      walker_tree = (\<lambda>p. Inl (PathError ''lstat'' p ErrNotExist))\<rparr>"

definition exampleGlobals :: globals where
  "exampleGlobals =
     \<lparr>localRepositoryRoots_var = [],
      vcsContentsMap = 
        [(''.git'', GitBackend), (''.svn'', SubversionBackend), (''.git/svn'', GitsvnBackend),
         (''.hg'', MercurialBackend), (''_darcs'', DarcsBackend), (''.fslckout'', FossilBackend),
         (''_FOSSIL_'', FossilBackend), (''.bzr'', BazaarBackend)],
      vcsContents = [''.fslckout'', ''.git/svn'', ''_FOSSIL_'', ''_darcs'', ''.git'', ''.svn'', ''.bzr'', ''.hg'']\<rparr>"

text \<open>
  Another order the sort can leave for the same map: \<open>_FOSSIL_\<close> and \<open>.git/svn\<close> have
  the same length, so either may come first.
\<close>

definition fossilFirstGlobals :: globals where
  "fossilFirstGlobals =
     exampleGlobals\<lparr>vcsContents :=
       [''.fslckout'', ''_FOSSIL_'', ''.git/svn'', ''_darcs'', ''.git'', ''.svn'', ''.bzr'', ''.hg'']\<rparr>"

text \<open>
  The same environment with the setting \<open>ghq.findVcs = git\<close>, and the variables \<open>init\<close>
  leaves for it: the only marker is \<open>.git\<close>.
\<close>

definition gitOnlyEnv :: "string list \<Rightarrow> env" where
  "gitOnlyEnv paths = (exampleEnv paths)\<lparr>gitconfig_GetAll_ghq_findVcs := ([''git''], None)\<rparr>"

definition gitOnlyGlobals :: globals where
  "gitOnlyGlobals =
     \<lparr>localRepositoryRoots_var = [],
      vcsContentsMap = [(''.git'', GitBackend)],
      vcsContents = [''.git'']\<rparr>"

text \<open>A repository value as \<open>LocalRepositoryFromURL\<close> builds it, under the root \<open>/r\<close>.\<close>

definition exampleRepo :: LocalRepository where
  "exampleRepo =
     \<lparr>FullPath = ''/r/github.com/motemen/ghq/cmdutil'',
      RelPath = ''github.com/motemen/ghq/cmdutil'',
      RootPath = ''/r'',
      PathParts = [''github.com'', ''motemen'', ''ghq'', ''cmdutil''],
      repoPath = [],
      vcsBackend = None\<rparr>"

section \<open>init and findVCSBackend: proofs\<close>

lemma registered_update:
  "registered m \<Longrightarrow> c \<in> set (Contents vcs) \<Longrightarrow> vcs \<noteq> cvsDummyBackend \<Longrightarrow> registered (AList.update c vcs m)"
  by (auto simp: registered_def update_conv')

lemma registered_fold_update:
  "registered m \<Longrightarrow> set cs \<subseteq> set (Contents vcs) \<Longrightarrow> vcs \<noteq> cvsDummyBackend \<Longrightarrow>
   registered (fold (\<lambda>c. AList.update c vcs) cs m)"
  by (induction cs arbitrary: m) (auto intro: registered_update)

lemma registered_registerContents:
  "registered m \<Longrightarrow> vcs \<noteq> cvsDummyBackend \<Longrightarrow> registered (registerContents vcs m)"
  by (simp add: registerContents_def registered_fold_update)

lemma registry_no_cvs: "(name, vcs) \<in> set vcsRegistry \<Longrightarrow> vcs \<noteq> cvsDummyBackend"
  by (auto simp: vcsRegistry_def)

lemma registered_fold_registry:
  "registered m \<Longrightarrow> set reg \<subseteq> set vcsRegistry \<Longrightarrow>
   registered (fold (\<lambda>(name, vcs). registerContents vcs) reg m)"
proof (induction reg arbitrary: m)
  case Nil
  then show ?case by simp
next
  case (Cons a reg)
  obtain name vcs where a: "a = (name, vcs)" by (cases a)
  with Cons.prems have "vcs \<noteq> cvsDummyBackend" using registry_no_cvs by auto
  with Cons.prems have "registered (registerContents vcs m)" by (simp add: registered_registerContents)
  with Cons show ?case by (simp add: a)
qed

lemma registered_fold_names:
  "registered m \<Longrightarrow>
   registered (fold (\<lambda>v m. case map_of vcsRegistry v of Some vcs \<Rightarrow> registerContents vcs m | None \<Rightarrow> m) vcses m)"
proof (induction vcses arbitrary: m)
  case Nil
  then show ?case by simp
next
  case (Cons v vcses)
  show ?case
  proof (cases "map_of vcsRegistry v")
    case None
    with Cons show ?thesis by simp
  next
    case (Some vcs)
    then have "(v, vcs) \<in> set vcsRegistry" by (rule map_of_SomeD)
    then have "vcs \<noteq> cvsDummyBackend" by (rule registry_no_cvs)
    with Cons.prems have "registered (registerContents vcs m)" by (simp add: registered_registerContents)
    with Cons.IH Some show ?thesis by simp
  qed
qed

lemma registered_Nil: "registered []"
  by (simp add: registered_def)

lemma registered_init_map:
  assumes "init_map env = Some m"
  shows "registered m"
proof -
  obtain vcses err where ge: "gitconfig_GetAll_ghq_findVcs env = (vcses, err)"
    by (cases "gitconfig_GetAll_ghq_findVcs env")
  show ?thesis
  proof (cases "vcses = []")
    case True
    with assms ge have "m = fold (\<lambda>(name, vcs). registerContents vcs) vcsRegistry []"
      by (simp add: init_map_def split: if_splits)
    then show ?thesis using registered_fold_registry [OF registered_Nil, of vcsRegistry] by simp
  next
    case False
    with assms ge have "m = fold (\<lambda>v m. case map_of vcsRegistry v of Some vcs \<Rightarrow> registerContents vcs m
                               | None \<Rightarrow> m) vcses []"
      by (simp add: init_map_def split: if_splits)
    then show ?thesis using registered_fold_names [OF registered_Nil] by simp
  qed
qed

lemma findVCSBackend_loop_find:
  "findVCSBackend_loop env m ds fpath =
     (case find (markerExists env fpath) ds of None \<Rightarrow> None | Some d \<Rightarrow> map_of m d)"
  by (induction ds) (auto simp: markerExists_def split: sum.splits)

lemma find_sorted_longest:
  assumes "sorted_wrt (\<lambda>a b. \<not> length b > length a) cs" and "find P cs = Some d"
    and "d' \<in> set cs" and "length d < length d'"
  shows "\<not> P d'"
  using assms by (induction cs) (auto split: if_splits)

lemma default_map:
  "fold (\<lambda>(name, vcs). registerContents vcs) vcsRegistry [] =
     [(''.git'', GitBackend), (''.svn'', SubversionBackend), (''.git/svn'', GitsvnBackend),
      (''.hg'', MercurialBackend), (''_darcs'', DarcsBackend), (''.fslckout'', FossilBackend),
      (''_FOSSIL_'', FossilBackend), (''.bzr'', BazaarBackend)]"
  by code_simp

lemma exampleGlobals_init_ok: "init_ok (exampleEnv paths) exampleGlobals"
  by (simp add: init_ok_def init_map_def exampleEnv_def exampleGlobals_def default_map init_sorted_def
      gitconfig_IsNotFound_def)

lemma init_ok_keys:
  assumes "init_ok env g"
  shows "set (vcsContents g) = fst ` set (vcsContentsMap g)"
proof -
  from assms have "mset (vcsContents g) = mset (map fst (vcsContentsMap g))"
    by (simp add: init_ok_def init_sorted_def)
  then have "set (vcsContents g) = set (map fst (vcsContentsMap g))" by (rule mset_eq_setD)
  then show ?thesis by simp
qed

lemma init_ok_default_keys:
  assumes "init_ok env g" and "fst (gitconfig_GetAll_ghq_findVcs env) = []"
  shows "''.git/svn'' \<in> set (vcsContents g)"
proof -
  from assms have "vcsContentsMap g = fold (\<lambda>(name, vcs). registerContents vcs) vcsRegistry []"
    by (cases "gitconfig_GetAll_ghq_findVcs env") (simp add: init_ok_def init_map_def split: if_splits)
  then show ?thesis using init_ok_keys [OF assms(1)] by (simp add: default_map)
qed

lemma long_marker:
  assumes "m \<in> set (Contents b)" and "b \<noteq> cvsDummyBackend" and "8 \<le> length m"
  shows "(b = GitsvnBackend \<and> m = ''.git/svn'') \<or> (b = FossilBackend \<and> (m = ''.fslckout'' \<or> m = ''_FOSSIL_''))"
  using assms by (cases b) auto

text \<open>
  C1, as amended. For the variables \<open>init\<close> leaves, under any order the sort can produce:
  the markers are in descending order of length; \<open>findVCSBackend\<close> returns the backend
  of the first marker of that order that exists under the directory, and nil exactly when
  no marker exists; so the marker it reports exists and no longer marker of the list does.
  Without a \<open>ghq.findVcs\<close> setting \<open>.git/svn\<close> is one of the markers. When \<open>.git/svn\<close> is
  one of the markers and both \<open>.git\<close> and \<open>.git/svn\<close> exist under the directory, the
  result is never the plain git backend, and it is the git-svn backend unless one of the
  Fossil markers (\<open>.fslckout\<close>, longer, or \<open>_FOSSIL_\<close>, of the same length) exists too.
\<close>

theorem findVCSBackend_longest_marker:
  assumes "init_ok env g"
  shows "sorted_wrt (\<lambda>a b. length b \<le> length a) (vcsContents g)
     \<and> findVCSBackend env' g d =
         (case find (markerExists env' d) (vcsContents g) of
            None \<Rightarrow> None
          | Some m \<Rightarrow> map_of (vcsContentsMap g) m)
     \<and> (findVCSBackend env' g d = None \<longleftrightarrow> (\<forall>m \<in> set (vcsContents g). \<not> markerExists env' d m))
     \<and> (\<forall>b. findVCSBackend env' g d = Some b \<longrightarrow>
           (\<exists>m \<in> set (vcsContents g). m \<in> set (Contents b) \<and> markerExists env' d m
              \<and> (\<forall>m' \<in> set (vcsContents g). length m < length m' \<longrightarrow> \<not> markerExists env' d m')))
     \<and> (fst (gitconfig_GetAll_ghq_findVcs env) = [] \<longrightarrow> ''.git/svn'' \<in> set (vcsContents g))
     \<and> (''.git/svn'' \<in> set (vcsContents g) \<and> markerExists env' d ''.git'' \<and> markerExists env' d ''.git/svn'' \<longrightarrow>
           findVCSBackend env' g d \<noteq> None \<and> findVCSBackend env' g d \<noteq> Some GitBackend
           \<and> (\<not> markerExists env' d ''.fslckout'' \<and> \<not> markerExists env' d ''_FOSSIL_'' \<longrightarrow>
                findVCSBackend env' g d = Some GitsvnBackend))"
proof -
  let ?cs = "vcsContents g" and ?M = "vcsContentsMap g"
  let ?P = "markerExists env' d"
  from assms have sorted: "sorted_wrt (\<lambda>a b. \<not> length b > length a) ?cs"
    by (simp add: init_ok_def init_sorted_def)
  from assms have reg: "registered ?M"
    by (auto simp: init_ok_def intro: registered_init_map)
  have keys: "set ?cs = fst ` set ?M" by (rule init_ok_keys [OF assms])
  have eq: "findVCSBackend env' g d = (case find ?P ?cs of None \<Rightarrow> None | Some m \<Rightarrow> map_of ?M m)"
    by (simp add: findVCSBackend_def findVCSBackend_loop_find)
  have inmap: "map_of ?M m \<noteq> None" if "m \<in> set ?cs" for m
    using that keys by (simp add: map_of_eq_None_iff)
  have none: "findVCSBackend env' g d = None \<longleftrightarrow> (\<forall>m \<in> set ?cs. \<not> ?P m)"
  proof (cases "find ?P ?cs")
    case None
    then have "\<forall>m \<in> set ?cs. \<not> ?P m" by (simp add: find_None_iff)
    with None show ?thesis by (simp add: eq)
  next
    case (Some m)
    then have m: "m \<in> set ?cs" "?P m" by (auto simp: find_Some_iff)
    from inmap [OF m(1)] Some have "findVCSBackend env' g d \<noteq> None" by (simp add: eq)
    with m show ?thesis by blast
  qed
  have some: "\<exists>m \<in> set ?cs. m \<in> set (Contents b) \<and> b \<noteq> cvsDummyBackend \<and> ?P m
                \<and> (\<forall>m' \<in> set ?cs. length m < length m' \<longrightarrow> \<not> ?P m')"
    if res: "findVCSBackend env' g d = Some b" for b
  proof -
    from res eq obtain m where f: "find ?P ?cs = Some m" and mb: "map_of ?M m = Some b"
      by (auto split: option.splits)
    from f have "m \<in> set ?cs" and "?P m" by (auto simp: find_Some_iff)
    moreover from reg mb have "m \<in> set (Contents b)" and "b \<noteq> cvsDummyBackend"
      by (auto simp: registered_def)
    moreover have "\<forall>m' \<in> set ?cs. length m < length m' \<longrightarrow> \<not> ?P m'"
      using find_sorted_longest [OF sorted f] by blast
    ultimately show ?thesis by blast
  qed
  have gitsvn: "findVCSBackend env' g d \<noteq> None \<and> findVCSBackend env' g d \<noteq> Some GitBackend
           \<and> (\<not> ?P ''.fslckout'' \<and> \<not> ?P ''_FOSSIL_'' \<longrightarrow> findVCSBackend env' g d = Some GitsvnBackend)"
    if inn: "''.git/svn'' \<in> set ?cs" and ex: "?P ''.git/svn''"
  proof -
    from inn ex none have nn: "findVCSBackend env' g d \<noteq> None" by blast
    then obtain b where b: "findVCSBackend env' g d = Some b" by blast
    from some [OF b] obtain m where m: "m \<in> set (Contents b)" "b \<noteq> cvsDummyBackend" "?P m"
      and longest: "\<forall>m' \<in> set ?cs. length m < length m' \<longrightarrow> \<not> ?P m'" by blast
    from longest inn ex have "\<not> length m < length ''.git/svn''" by blast
    then have len: "8 \<le> length m" by simp
    from long_marker [OF m(1) m(2) len] m(3) b nn show ?thesis by auto
  qed
  from sorted have "sorted_wrt (\<lambda>a b. length b \<le> length a) ?cs"
    by (simp add: not_less)
  with eq none some gitsvn init_ok_default_keys [OF assms] show ?thesis by blast
qed

theorem findVCSBackend_longest_marker_witness:
  "init_ok (exampleEnv []) exampleGlobals
   \<and> markerExists (exampleEnv [''/d/.git'', ''/d/.git/svn'']) ''/d'' ''.git''
   \<and> markerExists (exampleEnv [''/d/.git'', ''/d/.git/svn'']) ''/d'' ''.git/svn''
   \<and> findVCSBackend (exampleEnv [''/d/.git'', ''/d/.git/svn'']) exampleGlobals ''/d'' = Some GitsvnBackend"
proof -
  let ?E = "exampleEnv [''/d/.git'', ''/d/.git/svn'']"
  have ok: "init_ok (exampleEnv []) exampleGlobals" by (rule exampleGlobals_init_ok)
  have j: "filepath_Join [''/d'', ''.git''] = ''/d/.git''"
    "filepath_Join [''/d'', ''.git/svn''] = ''/d/.git/svn''"
    "filepath_Join [''/d'', ''.fslckout''] = ''/d/.fslckout''"
    "filepath_Join [''/d'', ''_FOSSIL_''] = ''/d/_FOSSIL_''"
    by code_simp+
  have m: "markerExists ?E ''/d'' ''.git''" "markerExists ?E ''/d'' ''.git/svn''"
    "\<not> markerExists ?E ''/d'' ''.fslckout''" "\<not> markerExists ?E ''/d'' ''_FOSSIL_''"
    by (simp_all add: markerExists_def exampleEnv_def j)
  have inn: "''.git/svn'' \<in> set (vcsContents exampleGlobals)"
    by (simp add: exampleGlobals_def)
  from findVCSBackend_longest_marker [OF ok, of ?E "''/d''"] inn m
  have "findVCSBackend ?E exampleGlobals ''/d'' = Some GitsvnBackend" by blast
  with ok m show ?thesis by blast
qed

lemma gitOnly_map: "init_map (gitOnlyEnv paths) = Some [(''.git'', GitBackend)]"
  by (simp add: init_map_def gitOnlyEnv_def exampleEnv_def gitconfig_IsNotFound_def vcsRegistry_def
      registerContents_def)

lemma gitOnlyGlobals_init_ok: "init_ok (gitOnlyEnv paths) gitOnlyGlobals"
  by (simp add: init_ok_def gitOnly_map gitOnlyGlobals_def init_sorted_def)

lemma fossilFirstGlobals_init_ok: "init_ok (exampleEnv paths) fossilFirstGlobals"
  using exampleGlobals_init_ok [of paths]
  by (simp add: init_ok_def fossilFirstGlobals_def exampleGlobals_def init_sorted_def)

text \<open>
  With \<open>ghq.findVcs = git\<close>, whatever \<open>init\<close> leaves: a directory in which \<open>.git\<close> exists
  is detected as plain git, whether or not \<open>.git/svn\<close> exists in it too.
\<close>

lemma gitOnly_always_git:
  assumes "init_ok (gitOnlyEnv paths) g" and "markerExists env' d ''.git''"
  shows "findVCSBackend env' g d = Some GitBackend"
proof -
  from assms(1) have m: "vcsContentsMap g = [(''.git'', GitBackend)]"
    by (simp add: init_ok_def gitOnly_map)
  with assms(1) have "mset (vcsContents g) = {#''.git''#}"
    by (simp add: init_ok_def init_sorted_def)
  then have "vcsContents g = [''.git'']" by (simp add: mset_single_iff_right)
  with m assms(2) show ?thesis
    by (simp add: findVCSBackend_def markerExists_def split: sum.splits)
qed

text \<open>
  C1 as written fails at three inputs, each a directory \<open>/d\<close> in which both \<open>.git\<close> and
  \<open>.git/svn\<close> exist.

  \<^item> Without configuration, \<open>.fslckout\<close> exists too: the result is Fossil, not git-svn,
    since \<open>.fslckout\<close> (9 bytes) is the longest marker and is tried first.
  \<^item> With \<open>ghq.findVcs = git\<close>, \<open>init\<close> enters only the markers of the backends the
    setting names, so \<open>.git/svn\<close> is not a marker at all: the result is plain git.
  \<^item> Without configuration, \<open>_FOSSIL_\<close> exists too: \<open>_FOSSIL_\<close> and \<open>.git/svn\<close> are both
    8 bytes long and the sort may leave either first; under one order the result is
    git-svn, under the other it is Fossil.
\<close>

theorem findVCSBackend_gitsvn_counterexample:
  "init_ok (exampleEnv [''/d/.git'', ''/d/.git/svn'', ''/d/.fslckout'']) exampleGlobals
   \<and> markerExists (exampleEnv [''/d/.git'', ''/d/.git/svn'', ''/d/.fslckout'']) ''/d'' ''.git''
   \<and> markerExists (exampleEnv [''/d/.git'', ''/d/.git/svn'', ''/d/.fslckout'']) ''/d'' ''.git/svn''
   \<and> findVCSBackend (exampleEnv [''/d/.git'', ''/d/.git/svn'', ''/d/.fslckout'']) exampleGlobals ''/d''
       = Some FossilBackend
   \<and> init_ok (gitOnlyEnv [''/d/.git'', ''/d/.git/svn'']) gitOnlyGlobals
   \<and> markerExists (gitOnlyEnv [''/d/.git'', ''/d/.git/svn'']) ''/d'' ''.git''
   \<and> markerExists (gitOnlyEnv [''/d/.git'', ''/d/.git/svn'']) ''/d'' ''.git/svn''
   \<and> findVCSBackend (gitOnlyEnv [''/d/.git'', ''/d/.git/svn'']) gitOnlyGlobals ''/d'' = Some GitBackend
   \<and> init_ok (exampleEnv [''/d/.git'', ''/d/.git/svn'', ''/d/_FOSSIL_'']) exampleGlobals
   \<and> init_ok (exampleEnv [''/d/.git'', ''/d/.git/svn'', ''/d/_FOSSIL_'']) fossilFirstGlobals
   \<and> markerExists (exampleEnv [''/d/.git'', ''/d/.git/svn'', ''/d/_FOSSIL_'']) ''/d'' ''.git''
   \<and> markerExists (exampleEnv [''/d/.git'', ''/d/.git/svn'', ''/d/_FOSSIL_'']) ''/d'' ''.git/svn''
   \<and> findVCSBackend (exampleEnv [''/d/.git'', ''/d/.git/svn'', ''/d/_FOSSIL_'']) exampleGlobals ''/d''
       = Some GitsvnBackend
   \<and> findVCSBackend (exampleEnv [''/d/.git'', ''/d/.git/svn'', ''/d/_FOSSIL_'']) fossilFirstGlobals ''/d''
       = Some FossilBackend"
proof -
  let ?E = "exampleEnv [''/d/.git'', ''/d/.git/svn'', ''/d/.fslckout'']"
  let ?G = "gitOnlyEnv [''/d/.git'', ''/d/.git/svn'']"
  let ?F = "exampleEnv [''/d/.git'', ''/d/.git/svn'', ''/d/_FOSSIL_'']"
  have j: "filepath_Join [''/d'', ''.git''] = ''/d/.git''"
    "filepath_Join [''/d'', ''.git/svn''] = ''/d/.git/svn''"
    "filepath_Join [''/d'', ''.fslckout''] = ''/d/.fslckout''"
    "filepath_Join [''/d'', ''_FOSSIL_''] = ''/d/_FOSSIL_''"
    by code_simp+
  have a: "findVCSBackend ?E exampleGlobals ''/d'' = Some FossilBackend"
    by (simp add: findVCSBackend_def exampleGlobals_def exampleEnv_def j)
  have b: "markerExists ?E ''/d'' ''.git''" "markerExists ?E ''/d'' ''.git/svn''"
    by (simp_all add: markerExists_def exampleEnv_def j)
  have c: "findVCSBackend ?G gitOnlyGlobals ''/d'' = Some GitBackend"
    by (simp add: findVCSBackend_def gitOnlyGlobals_def gitOnlyEnv_def exampleEnv_def j)
  have d: "markerExists ?G ''/d'' ''.git''" "markerExists ?G ''/d'' ''.git/svn''"
    by (simp_all add: markerExists_def gitOnlyEnv_def exampleEnv_def j)
  have e: "findVCSBackend ?F exampleGlobals ''/d'' = Some GitsvnBackend"
    by (simp add: findVCSBackend_def exampleGlobals_def exampleEnv_def j)
  have f: "findVCSBackend ?F fossilFirstGlobals ''/d'' = Some FossilBackend"
    by (simp add: findVCSBackend_def fossilFirstGlobals_def exampleGlobals_def exampleEnv_def j)
  have h: "markerExists ?F ''/d'' ''.git''" "markerExists ?F ''/d'' ''.git/svn''"
    by (simp_all add: markerExists_def exampleEnv_def j)
  show ?thesis
    by (simp only: a b c d e f h exampleGlobals_init_ok gitOnlyGlobals_init_ok fossilFirstGlobals_init_ok
        simp_thms)
qed

section \<open>The backends: proofs\<close>

lemma cvs_never_found:
  assumes "init_ok env g"
  shows "findVCSBackend env' g d \<noteq> Some cvsDummyBackend"
proof
  assume a: "findVCSBackend env' g d = Some cvsDummyBackend"
  from assms have "registered (vcsContentsMap g)"
    by (auto simp: init_ok_def intro: registered_init_map)
  moreover from a obtain m where "map_of (vcsContentsMap g) m = Some cvsDummyBackend"
    by (auto simp: findVCSBackend_def findVCSBackend_loop_find split: option.splits)
  ultimately show False by (auto simp: registered_def)
qed

text \<open>
  C7. The CVS backend's \<open>Clone\<close> and \<open>Update\<close> perform no action and return the errors
  "CVS clone is not supported" and "CVS update is not supported", for every input, and
  its \<open>Contents\<close> is \<open>["CVS/Repository"]\<close>. But the backend is not in \<open>vcsRegistry\<close>,
  from which \<open>init\<close> takes the markers, so its marker is never looked for: in a directory
  \<open>/w\<close> in which \<open>CVS/Repository\<close> exists, without configuration, \<open>findVCSBackend\<close>
  returns nil.
\<close>

theorem cvsDummyBackend_not_detected:
  "Clone cvsDummyBackend exec remote local shallow silent = ([], Some (ErrorString ''CVS clone is not supported''))
   \<and> Update cvsDummyBackend exec local silent = ([], Some (ErrorString ''CVS update is not supported''))
   \<and> Contents cvsDummyBackend = [''CVS/Repository'']
   \<and> init_ok (exampleEnv [''/w'', ''/w/CVS'', ''/w/CVS/Repository'']) exampleGlobals
   \<and> markerExists (exampleEnv [''/w'', ''/w/CVS'', ''/w/CVS/Repository'']) ''/w'' ''CVS/Repository''
   \<and> findVCSBackend (exampleEnv [''/w'', ''/w/CVS'', ''/w/CVS/Repository'']) exampleGlobals ''/w'' = None"
proof -
  let ?E = "exampleEnv [''/w'', ''/w/CVS'', ''/w/CVS/Repository'']"
  have j: "filepath_Join [''/w'', ''CVS/Repository''] = ''/w/CVS/Repository''"
    "filepath_Join [''/w'', ''.git''] = ''/w/.git''"
    "filepath_Join [''/w'', ''.git/svn''] = ''/w/.git/svn''"
    "filepath_Join [''/w'', ''.fslckout''] = ''/w/.fslckout''"
    "filepath_Join [''/w'', ''_FOSSIL_''] = ''/w/_FOSSIL_''"
    "filepath_Join [''/w'', ''_darcs''] = ''/w/_darcs''"
    "filepath_Join [''/w'', ''.svn''] = ''/w/.svn''"
    "filepath_Join [''/w'', ''.bzr''] = ''/w/.bzr''"
    "filepath_Join [''/w'', ''.hg''] = ''/w/.hg''"
    by code_simp+
  have "findVCSBackend ?E exampleGlobals ''/w'' = None"
    by (simp add: findVCSBackend_def exampleGlobals_def exampleEnv_def j)
  moreover have "markerExists ?E ''/w'' ''CVS/Repository''"
    by (simp add: markerExists_def exampleEnv_def j)
  ultimately show ?thesis using exampleGlobals_init_ok by simp
qed

text \<open>
  C8. For the git-svn, Mercurial and Bazaar backends, and every world, remote URL, local
  path and \<open>silent\<close> flag, \<open>Clone\<close> with \<open>shallow = true\<close> performs the same actions (the
  same directory creation and the same command with the same arguments) and returns the
  same error as with \<open>shallow = false\<close>.
\<close>

theorem shallow_ignored:
  "Clone GitsvnBackend exec remote local True silent = Clone GitsvnBackend exec remote local False silent
   \<and> Clone MercurialBackend exec remote local True silent = Clone MercurialBackend exec remote local False silent
   \<and> Clone BazaarBackend exec remote local True silent = Clone BazaarBackend exec remote local False silent"
  by simp

section \<open>repoRootCandidates, VCS and RepoPath: proofs\<close>

lemma VCS_loop_find:
  "VCS_loop env g cands repo =
     (case find (\<lambda>dir. findVCSBackend env g dir \<noteq> None) cands of
        None \<Rightarrow> repo
      | Some dir \<Rightarrow> repo\<lparr>vcsBackend := findVCSBackend env g dir, repoPath := dir\<rparr>)"
  by (induction cands) auto

lemma VCS_result:
  "VCS env g repo = Ret (b, p, repo') \<Longrightarrow> vcsBackend repo' = b \<and> RepoPath repo' = p"
  by (auto simp: VCS_def Let_def split: if_splits go.splits)

lemma VCS_cached:
  "vcsBackend repo = Some b \<Longrightarrow> VCS env g repo = Ret (Some b, RepoPath repo, repo)"
  by (simp add: VCS_def)

lemma VCS_loop_FullPath: "FullPath (VCS_loop env g cands repo) = FullPath repo"
  by (simp add: VCS_loop_find split: option.splits)

lemma VCS_FullPath:
  "VCS env g repo = Ret (b, p, repo') \<Longrightarrow> FullPath repo' = FullPath repo"
  by (auto simp: VCS_def Let_def VCS_loop_FullPath split: if_splits go.splits)





text \<open>
  C10. When \<open>PathParts\<close> has exactly one segment, \<open>repoRootCandidates\<close> returns the empty
  list; then, if the backend field is unset, \<open>VCS\<close> returns a nil backend (and leaves the
  repository as it is). For every repository, when the \<open>repoPath\<close> field is unset
  \<open>RepoPath\<close> is \<open>FullPath\<close>; and so is the path \<open>VCS\<close> returns, when the field is unset
  in the repository \<open>VCS\<close> leaves.
\<close>

theorem host_only_repository:
  "(repoPath repo = [] \<longrightarrow> RepoPath repo = FullPath repo)
   \<and> (\<forall>b p repo'. VCS env g repo = Ret (b, p, repo') \<and> repoPath repo' = [] \<longrightarrow> p = FullPath repo)
   \<and> (PathParts repo = [host] \<longrightarrow>
         repoRootCandidates repo = Ret []
         \<and> (vcsBackend repo = None \<longrightarrow> VCS env g repo = Ret (None, RepoPath repo, repo))
         \<and> (repoPath repo = [] \<longrightarrow> VCS env g repo = Ret (vcsBackend repo, FullPath repo, repo)))"
proof -
  have a: "repoPath repo = [] \<longrightarrow> RepoPath repo = FullPath repo"
    by (simp add: RepoPath_def)
  have b: "\<forall>b p repo'. VCS env g repo = Ret (b, p, repo') \<and> repoPath repo' = [] \<longrightarrow> p = FullPath repo"
  proof (intro allI impI)
    fix b p repo'
    assume h: "VCS env g repo = Ret (b, p, repo') \<and> repoPath repo' = []"
    then have "RepoPath repo' = p" and "FullPath repo' = FullPath repo"
      using VCS_result [of env g repo b p repo'] VCS_FullPath [of env g repo b p repo'] by simp_all
    with h show "p = FullPath repo" by (simp add: RepoPath_def)
  qed
  have c: "PathParts repo = [host] \<longrightarrow>
         repoRootCandidates repo = Ret []
         \<and> (vcsBackend repo = None \<longrightarrow> VCS env g repo = Ret (None, RepoPath repo, repo))
         \<and> (repoPath repo = [] \<longrightarrow> VCS env g repo = Ret (vcsBackend repo, FullPath repo, repo))"
    by (simp add: repoRootCandidates_def VCS_def RepoPath_def)
  from a b c show ?thesis by (simp only: simp_thms)
qed

theorem host_only_repository_witness:
  "PathParts (exampleRepo\<lparr>PathParts := [''github.com'']\<rparr>) = [''github.com'']
   \<and> vcsBackend (exampleRepo\<lparr>PathParts := [''github.com'']\<rparr>) = None
   \<and> repoPath (exampleRepo\<lparr>PathParts := [''github.com'']\<rparr>) = []
   \<and> repoRootCandidates (exampleRepo\<lparr>PathParts := [''github.com'']\<rparr>) = Ret []
   \<and> RepoPath (exampleRepo\<lparr>PathParts := [''github.com'']\<rparr>) = ''/r/github.com/motemen/ghq/cmdutil''
   \<and> VCS (exampleEnv [''/r/github.com/.git'']) exampleGlobals (exampleRepo\<lparr>PathParts := [''github.com'']\<rparr>)
       = Ret (None, ''/r/github.com/motemen/ghq/cmdutil'', exampleRepo\<lparr>PathParts := [''github.com'']\<rparr>)"
proof -
  let ?r = "exampleRepo\<lparr>PathParts := [''github.com'']\<rparr>"
  let ?E = "exampleEnv [''/r/github.com/.git'']"
  have h: "PathParts ?r = [''github.com'']" by simp
  have u: "vcsBackend ?r = None" "repoPath ?r = []"
    by (simp_all add: exampleRepo_def)
  have f: "FullPath ?r = ''/r/github.com/motemen/ghq/cmdutil''"
    by (simp add: exampleRepo_def)
  note t = host_only_repository [of ?r ?E exampleGlobals "''github.com''"]
  from t u(2) have p: "RepoPath ?r = FullPath ?r"
    apply (elim conjE)
    apply (erule mp)
    apply assumption
    done
  from t h have q: "repoRootCandidates ?r = Ret []
         \<and> (vcsBackend ?r = None \<longrightarrow> VCS ?E exampleGlobals ?r = Ret (None, RepoPath ?r, ?r))
         \<and> (repoPath ?r = [] \<longrightarrow> VCS ?E exampleGlobals ?r = Ret (vcsBackend ?r, FullPath ?r, ?r))"
    apply (elim conjE)
    apply (erule mp)
    apply assumption
    done
  from q have c: "repoRootCandidates ?r = Ret []" by (rule conjunct1)
  from q u(1) have v: "VCS ?E exampleGlobals ?r = Ret (None, RepoPath ?r, ?r)"
    apply (elim conjE)
    apply (erule mp)
    apply assumption
    done
  from h u c p v show ?thesis by (simp only: f simp_thms)
qed

end
